theory Spec2Isabelle
  imports Main
begin

section \<open>OpenVPN client events (openvpn/client/clievent.hpp)\<close>

subsection \<open>The event type registry\<close>

text \<open>
  \<^verbatim>\<open>enum Type\<close> is an unscoped enumeration without a fixed underlying type. A value
  of it is modelled by its ordinal, an integer: \<^verbatim>\<open>event_name\<close> itself expects values
  that are no enumerator (its \<^verbatim>\<open>else\<close> branch), and \<^verbatim>\<open>is_error\<close> converts the
  value with \<^verbatim>\<open>int(id_)\<close>. The first enumerator is given the value 0 and every other
  one is its predecessor plus one.
\<close>

type_synonym Type = int

definition DISCONNECTED :: Type where "DISCONNECTED = 0"
definition CONNECTED :: Type where "CONNECTED = DISCONNECTED + 1"
definition RECONNECTING :: Type where "RECONNECTING = CONNECTED + 1"
definition RESOLVE :: Type where "RESOLVE = RECONNECTING + 1"
definition WAIT :: Type where "WAIT = RESOLVE + 1"
definition WAIT_PROXY :: Type where "WAIT_PROXY = WAIT + 1"
definition CONNECTING :: Type where "CONNECTING = WAIT_PROXY + 1"
definition GET_CONFIG :: Type where "GET_CONFIG = CONNECTING + 1"
definition ASSIGN_IP :: Type where "ASSIGN_IP = GET_CONFIG + 1"
definition ADD_ROUTES :: Type where "ADD_ROUTES = ASSIGN_IP + 1"
definition PAUSE :: Type where "PAUSE = ADD_ROUTES + 1"
definition RESUME :: Type where "RESUME = PAUSE + 1"
definition AUTH_FAILED :: Type where "AUTH_FAILED = RESUME + 1"
definition CERT_VERIFY_FAIL :: Type where "CERT_VERIFY_FAIL = AUTH_FAILED + 1"
definition CLIENT_HALT :: Type where "CLIENT_HALT = CERT_VERIFY_FAIL + 1"
definition CLIENT_RESTART :: Type where "CLIENT_RESTART = CLIENT_HALT + 1"
definition CONNECTION_TIMEOUT :: Type where "CONNECTION_TIMEOUT = CLIENT_RESTART + 1"
definition INACTIVE_TIMEOUT :: Type where "INACTIVE_TIMEOUT = CONNECTION_TIMEOUT + 1"
definition DYNAMIC_CHALLENGE :: Type where "DYNAMIC_CHALLENGE = INACTIVE_TIMEOUT + 1"
definition PROXY_NEED_CREDS :: Type where "PROXY_NEED_CREDS = DYNAMIC_CHALLENGE + 1"
definition PROXY_ERROR :: Type where "PROXY_ERROR = PROXY_NEED_CREDS + 1"
definition TUN_SETUP_FAILED :: Type where "TUN_SETUP_FAILED = PROXY_ERROR + 1"
definition TUN_IFACE_CREATE :: Type where "TUN_IFACE_CREATE = TUN_SETUP_FAILED + 1"
definition EPKI_ERROR :: Type where "EPKI_ERROR = TUN_IFACE_CREATE + 1"
definition EPKI_INVALID_ALIAS :: Type where "EPKI_INVALID_ALIAS = EPKI_ERROR + 1"
definition N_TYPES :: Type where "N_TYPES = EPKI_INVALID_ALIAS + 1"

text \<open>The anonymous enumeration that marks the start of the error events.\<close>

definition ERROR_START :: int where "ERROR_START = AUTH_FAILED"

text \<open>The static table of \<^verbatim>\<open>event_name\<close>, in the order of its initialiser.\<close>

definition names :: "string list" where
  "names =
    [''DISCONNECTED'',
     ''CONNECTED'',
     ''RECONNECTING'',
     ''RESOLVE'',
     ''WAIT'',
     ''WAIT_PROXY'',
     ''CONNECTING'',
     ''GET_CONFIG'',
     ''ASSIGN_IP'',
     ''ADD_ROUTES'',
     ''PAUSE'',
     ''RESUME'',
     ''AUTH_FAILED'',
     ''CERT_VERIFY_FAIL'',
     ''CLIENT_HALT'',
     ''CLIENT_RESTART'',
     ''CONNECTION_TIMEOUT'',
     ''INACTIVE_TIMEOUT'',
     ''DYNAMIC_CHALLENGE'',
     ''PROXY_NEED_CREDS'',
     ''PROXY_ERROR'',
     ''TUN_SETUP_FAILED'',
     ''TUN_IFACE_CREATE'',
     ''EPKI_ERROR'',
     ''EPKI_INVALID_ALIAS'']"

text \<open>
  A read of a C array outside its bounds has no defined result; the model makes it a
  value of its own instead of hiding it in \<open>names ! i\<close>.
\<close>

datatype error = OutOfBounds

definition subscript :: "string list \<Rightarrow> int \<Rightarrow> error + string" where
  "subscript tab i = (if 0 \<le> i \<and> i < int (length tab) then Inr (tab ! nat i) else Inl OutOfBounds)"

text \<open>
  \<^verbatim>\<open>if (type < N_TYPES) return names[type]; else return "UNKNOWN_EVENT_TYPE";\<close>
  The comparison is the only test in front of the table: both operands are promoted to
  \<^verbatim>\<open>int\<close> and compared as such.
\<close>

definition event_name :: "Type \<Rightarrow> error + string" where
  "event_name type =
     (if type < N_TYPES then subscript names type
      else Inr ''UNKNOWN_EVENT_TYPE'')"

subsection \<open>The event classes\<close>

text \<open>
  \<^verbatim>\<open>class Base\<close> holds the private member \<^verbatim>\<open>id_\<close> (here \<open>id_m\<close>), set by the
  constructor \<^verbatim>\<open>Base(Type id)\<close> and read by \<^verbatim>\<open>id()\<close>. \<^verbatim>\<open>struct Connected\<close> and
  \<^verbatim>\<open>struct ReasonBase\<close> derive from it and add their public members.
\<close>

record Base =
  id_m :: Type

record Connected = Base +
  user :: string
  server_host :: string
  server_port :: string
  server_proto :: string
  server_ip :: string
  vpn_ip4 :: string
  vpn_ip6 :: string
  client_ip :: string
  tun_name :: string

record ReasonBase = Base +
  reason :: string

text \<open>
  An event object, as seen through a \<^verbatim>\<open>Base\<close> pointer. The constructor tells which
  definition of the virtual \<^verbatim>\<open>render\<close> the class of the object has: that of
  \<^verbatim>\<open>Base\<close> (the thirteen structs that add nothing to \<^verbatim>\<open>Base\<close>), that of
  \<^verbatim>\<open>Connected\<close>, or that of \<^verbatim>\<open>ReasonBase\<close> (the eleven structs derived from it).
\<close>

datatype Event =
    Base_obj Base
  | Connected_obj Connected
  | ReasonBase_obj ReasonBase

text \<open>Constructors. \<^verbatim>\<open>Base(Type id) : id_(id)\<close>\<close>

definition Base_ctor :: "Type \<Rightarrow> Base" where
  "Base_ctor ident = \<lparr>id_m = ident\<rparr>"

definition Resolve :: Event where "Resolve = Base_obj (Base_ctor RESOLVE)"
definition Wait :: Event where "Wait = Base_obj (Base_ctor WAIT)"
definition WaitProxy :: Event where "WaitProxy = Base_obj (Base_ctor WAIT_PROXY)"
definition Connecting :: Event where "Connecting = Base_obj (Base_ctor CONNECTING)"
definition Reconnecting :: Event where "Reconnecting = Base_obj (Base_ctor RECONNECTING)"
definition GetConfig :: Event where "GetConfig = Base_obj (Base_ctor GET_CONFIG)"
definition AssignIP :: Event where "AssignIP = Base_obj (Base_ctor ASSIGN_IP)"
definition AddRoutes :: Event where "AddRoutes = Base_obj (Base_ctor ADD_ROUTES)"
definition Pause :: Event where "Pause = Base_obj (Base_ctor PAUSE)"
definition Resume :: Event where "Resume = Base_obj (Base_ctor RESUME)"
definition Disconnected :: Event where "Disconnected = Base_obj (Base_ctor DISCONNECTED)"
definition ConnectionTimeout :: Event where
  "ConnectionTimeout = Base_obj (Base_ctor CONNECTION_TIMEOUT)"
definition InactiveTimeout :: Event where
  "InactiveTimeout = Base_obj (Base_ctor INACTIVE_TIMEOUT)"

text \<open>
  \<^verbatim>\<open>Connected() : Base(CONNECTED) {}\<close>: the nine strings are default-constructed, that
  is empty; the caller assigns the public members afterwards.
\<close>

definition Connected_ctor :: Connected where
  "Connected_ctor =
     \<lparr>id_m = CONNECTED, user = [], server_host = [], server_port = [], server_proto = [],
      server_ip = [], vpn_ip4 = [], vpn_ip6 = [], client_ip = [], tun_name = []\<rparr>"

text \<open>\<^verbatim>\<open>ReasonBase(const Type id, const std::string& reason_arg) : Base(id), reason(reason_arg)\<close>\<close>

definition ReasonBase_ctor :: "Type \<Rightarrow> string \<Rightarrow> ReasonBase" where
  "ReasonBase_ctor ident reason_arg = \<lparr>id_m = ident, reason = reason_arg\<rparr>"

definition AuthFailed :: "string \<Rightarrow> Event" where
  "AuthFailed r = ReasonBase_obj (ReasonBase_ctor AUTH_FAILED r)"
definition CertVerifyFail :: "string \<Rightarrow> Event" where
  "CertVerifyFail r = ReasonBase_obj (ReasonBase_ctor CERT_VERIFY_FAIL r)"
definition ClientHalt :: "string \<Rightarrow> Event" where
  "ClientHalt r = ReasonBase_obj (ReasonBase_ctor CLIENT_HALT r)"
definition ClientRestart :: "string \<Rightarrow> Event" where
  "ClientRestart r = ReasonBase_obj (ReasonBase_ctor CLIENT_RESTART r)"
definition DynamicChallenge :: "string \<Rightarrow> Event" where
  "DynamicChallenge r = ReasonBase_obj (ReasonBase_ctor DYNAMIC_CHALLENGE r)"
definition ProxyError :: "string \<Rightarrow> Event" where
  "ProxyError r = ReasonBase_obj (ReasonBase_ctor PROXY_ERROR r)"
definition ProxyNeedCreds :: "string \<Rightarrow> Event" where
  "ProxyNeedCreds r = ReasonBase_obj (ReasonBase_ctor PROXY_NEED_CREDS r)"
definition TunSetupFailed :: "string \<Rightarrow> Event" where
  "TunSetupFailed r = ReasonBase_obj (ReasonBase_ctor TUN_SETUP_FAILED r)"
definition TunIfaceCreate :: "string \<Rightarrow> Event" where
  "TunIfaceCreate r = ReasonBase_obj (ReasonBase_ctor TUN_IFACE_CREATE r)"
definition EpkiError :: "string \<Rightarrow> Event" where
  "EpkiError r = ReasonBase_obj (ReasonBase_ctor EPKI_ERROR r)"
definition EpkiInvalidAlias :: "string \<Rightarrow> Event" where
  "EpkiInvalidAlias r = ReasonBase_obj (ReasonBase_ctor EPKI_INVALID_ALIAS r)"

subsection \<open>The member functions of \<^verbatim>\<open>Base\<close>\<close>

text \<open>\<^verbatim>\<open>Type id() const { return id_; }\<close> (\<open>id\<close> is the identity function of HOL).\<close>

fun id_of :: "Event \<Rightarrow> Type" where
  "id_of (Base_obj b) = id_m b"
| "id_of (Connected_obj c) = id_m c"
| "id_of (ReasonBase_obj r) = id_m r"

text \<open>\<^verbatim>\<open>const char *name() const { return event_name(id_); }\<close>\<close>

definition name :: "Event \<Rightarrow> error + string" where
  "name e = event_name (id_of e)"

text \<open>\<^verbatim>\<open>bool is_error() const { return int(id_) >= ERROR_START; }\<close>\<close>

definition is_error :: "Event \<Rightarrow> bool" where
  "is_error e = (id_of e \<ge> ERROR_START)"

text \<open>
  \<^verbatim>\<open>std::ostringstream\<close>, as the characters written so far. \<^verbatim>\<open>operator<<\<close> appends a
  string or a single character; a chain \<^verbatim>\<open>out << a << b << c\<close> applies it from the left.
\<close>

type_synonym ostringstream = string

datatype item = Str string | Chr char

fun insert_item :: "ostringstream \<Rightarrow> item \<Rightarrow> ostringstream" where
  "insert_item out (Str s) = out @ s"
| "insert_item out (Chr c) = out @ [c]"

definition str :: "ostringstream \<Rightarrow> string" where
  "str out = out"

text \<open>
  The virtual \<^verbatim>\<open>render\<close>: \<^verbatim>\<open>Base::render\<close> returns \<^verbatim>\<open>""\<close>, \<^verbatim>\<open>Connected::render\<close>
  writes its members to a stream,
  \<^verbatim>\<open>out << user << '@' << server_host << ':' << server_port << " (" << server_ip
      << ") via " << client_ip << '/' << server_proto << " on " << tun_name << '/'
      << vpn_ip4 << '/' << vpn_ip6;\<close>
  and \<^verbatim>\<open>ReasonBase::render\<close> returns \<^verbatim>\<open>reason\<close>.
\<close>

fun render :: "Event \<Rightarrow> string" where
  "render (Base_obj b) = []"
| "render (Connected_obj c) =
     str (foldl insert_item []
       [Str (user c), Chr (CHR ''@''), Str (server_host c), Chr (CHR '':''),
        Str (server_port c), Str '' ('', Str (server_ip c), Str '') via '',
        Str (client_ip c), Chr (CHR ''/''), Str (server_proto c), Str '' on '',
        Str (tun_name c), Chr (CHR ''/''), Str (vpn_ip4 c), Chr (CHR ''/''),
        Str (vpn_ip6 c)])"
| "render (ReasonBase_obj r) = reason r"

text \<open>
  \<^verbatim>\<open>if (id_ == CONNECTED) return (const Connected*)this; else return NULL;\<close>
  The result is a pointer to the object itself or the null pointer. The cast is not
  checked, so the model returns the object as it is.
\<close>

definition connected_cast :: "Event \<Rightarrow> Event option" where
  "connected_cast e = (if id_of e = CONNECTED then Some e else None)"

text \<open>
  The five member functions are all declared \<^verbatim>\<open>const\<close> and \<^verbatim>\<open>id_\<close> is not
  \<^verbatim>\<open>mutable\<close>: a call returns its result and leaves the object as it was.
\<close>

datatype member = M_id | M_name | M_is_error | M_render | M_connected_cast

datatype result =
    R_Type Type
  | R_name "error + string"
  | R_bool bool
  | R_string string
  | R_pointer "Event option"

fun invoke :: "member \<Rightarrow> Event \<Rightarrow> result \<times> Event" where
  "invoke M_id e = (R_Type (id_of e), e)"
| "invoke M_name e = (R_name (name e), e)"
| "invoke M_is_error e = (R_bool (is_error e), e)"
| "invoke M_render e = (R_string (render e), e)"
| "invoke M_connected_cast e = (R_pointer (connected_cast e), e)"

section \<open>Properties\<close>

subsection \<open>Auxiliary facts\<close>

lemmas Type_defs =
  DISCONNECTED_def CONNECTED_def RECONNECTING_def RESOLVE_def WAIT_def WAIT_PROXY_def
  CONNECTING_def GET_CONFIG_def ASSIGN_IP_def ADD_ROUTES_def PAUSE_def RESUME_def
  AUTH_FAILED_def CERT_VERIFY_FAIL_def CLIENT_HALT_def CLIENT_RESTART_def
  CONNECTION_TIMEOUT_def INACTIVE_TIMEOUT_def DYNAMIC_CHALLENGE_def PROXY_NEED_CREDS_def
  PROXY_ERROR_def TUN_SETUP_FAILED_def TUN_IFACE_CREATE_def EPKI_ERROR_def
  EPKI_INVALID_ALIAS_def N_TYPES_def ERROR_START_def


lemma Type_values:
  "DISCONNECTED = 0" "CONNECTED = 1" "RECONNECTING = 2" "RESOLVE = 3" "WAIT = 4"
  "WAIT_PROXY = 5" "CONNECTING = 6" "GET_CONFIG = 7" "ASSIGN_IP = 8" "ADD_ROUTES = 9"
  "PAUSE = 10" "RESUME = 11" "AUTH_FAILED = 12" "CERT_VERIFY_FAIL = 13" "CLIENT_HALT = 14"
  "CLIENT_RESTART = 15" "CONNECTION_TIMEOUT = 16" "INACTIVE_TIMEOUT = 17"
  "DYNAMIC_CHALLENGE = 18" "PROXY_NEED_CREDS = 19" "PROXY_ERROR = 20"
  "TUN_SETUP_FAILED = 21" "TUN_IFACE_CREATE = 22" "EPKI_ERROR = 23"
  "EPKI_INVALID_ALIAS = 24" "N_TYPES = 25" "ERROR_START = 12"
  by (simp_all add: Type_defs)

lemma length_names: "length names = 25"
  by (simp add: names_def)

lemma subscript_names_in_range:
  "0 \<le> t \<Longrightarrow> t < N_TYPES \<Longrightarrow> subscript names t = Inr (names ! nat t)"
  by (simp add: subscript_def length_names Type_values)

lemma render_Connected_append:
  "render (Connected_obj c) =
     user c @ ''@'' @ server_host c @ '':'' @ server_port c @ '' ('' @ server_ip c @
     '') via '' @ client_ip c @ ''/'' @ server_proto c @ '' on '' @ tun_name c @ ''/'' @
     vpn_ip4 c @ ''/'' @ vpn_ip6 c"
  by (simp add: str_def)

lemmas Empty_defs =
  Resolve_def Wait_def WaitProxy_def Connecting_def Reconnecting_def GetConfig_def
  AssignIP_def AddRoutes_def Pause_def Resume_def Disconnected_def ConnectionTimeout_def
  InactiveTimeout_def Base_ctor_def

lemmas Reason_defs =
  AuthFailed_def CertVerifyFail_def ClientHalt_def ClientRestart_def DynamicChallenge_def
  ProxyError_def ProxyNeedCreds_def TunSetupFailed_def TunIfaceCreate_def EpkiError_def
  EpkiInvalidAlias_def ReasonBase_ctor_def

subsection \<open>Error classification\<close>

text \<open>
  C1. \<^verbatim>\<open>is_error\<close> is true exactly when the ordinal of the event's kind is at least the
  ordinal of \<open>AUTH_FAILED\<close>. In particular it is true for an event of each of the
  thirteen kinds \<open>AUTH_FAILED\<close> to \<open>EPKI_INVALID_ALIAS\<close> and false for an event of
  each of the twelve kinds \<open>DISCONNECTED\<close> to \<open>RESUME\<close>.
\<close>

theorem is_error_threshold:
  "is_error e = (AUTH_FAILED \<le> id_of e)
   \<and> map (\<lambda>k. is_error (Base_obj (Base_ctor k)))
       [AUTH_FAILED, CERT_VERIFY_FAIL, CLIENT_HALT, CLIENT_RESTART, CONNECTION_TIMEOUT,
        INACTIVE_TIMEOUT, DYNAMIC_CHALLENGE, PROXY_NEED_CREDS, PROXY_ERROR,
        TUN_SETUP_FAILED, TUN_IFACE_CREATE, EPKI_ERROR, EPKI_INVALID_ALIAS]
     = [True, True, True, True, True, True, True, True, True, True, True, True, True]
   \<and> map (\<lambda>k. is_error (Base_obj (Base_ctor k)))
       [DISCONNECTED, CONNECTED, RECONNECTING, RESOLVE, WAIT, WAIT_PROXY, CONNECTING,
        GET_CONFIG, ASSIGN_IP, ADD_ROUTES, PAUSE, RESUME]
     = [False, False, False, False, False, False, False, False, False, False, False, False]"
  by (simp add: is_error_def Base_ctor_def Type_values)

subsection \<open>Rendering\<close>

text \<open>
  C2. For every Connected event \<^verbatim>\<open>render\<close> returns the concatenation, in this order,
  of user, "@", server_host, ":", server_port, " (", server_ip, ") via ", client_ip, "/",
  server_proto, " on ", tun_name, "/", vpn_ip4, "/", vpn_ip6; for the event with user
  alice, host vpn.example.com, port 443, server address 203.0.113.5, client address
  198.51.100.9, protocol TCPv4, interface tun0, IPv4 address 10.8.0.2 and no IPv6 address
  that is "alice@vpn.example.com:443 (203.0.113.5) via 198.51.100.9/TCPv4 on tun0/10.8.0.2/".
\<close>

theorem Connected_render_format:
  "render (Connected_obj c) =
     concat [user c, ''@'', server_host c, '':'', server_port c, '' ('', server_ip c,
             '') via '', client_ip c, ''/'', server_proto c, '' on '', tun_name c, ''/'',
             vpn_ip4 c, ''/'', vpn_ip6 c]
   \<and> render (Connected_obj (Connected_ctor
        \<lparr>user := ''alice'', server_host := ''vpn.example.com'', server_port := ''443'',
         server_ip := ''203.0.113.5'', client_ip := ''198.51.100.9'',
         server_proto := ''TCPv4'', tun_name := ''tun0'', vpn_ip4 := ''10.8.0.2'',
         vpn_ip6 := ''''\<rparr>))
     = ''alice@vpn.example.com:443 (203.0.113.5) via 198.51.100.9/TCPv4 on tun0/10.8.0.2/''"
proof
  show "render (Connected_obj c) =
     concat [user c, ''@'', server_host c, '':'', server_port c, '' ('', server_ip c,
             '') via '', client_ip c, ''/'', server_proto c, '' on '', tun_name c, ''/'',
             vpn_ip4 c, ''/'', vpn_ip6 c]"
    by (simp add: str_def)
next
  show "render (Connected_obj (Connected_ctor
        \<lparr>user := ''alice'', server_host := ''vpn.example.com'', server_port := ''443'',
         server_ip := ''203.0.113.5'', client_ip := ''198.51.100.9'',
         server_proto := ''TCPv4'', tun_name := ''tun0'', vpn_ip4 := ''10.8.0.2'',
         vpn_ip6 := ''''\<rparr>))
     = ''alice@vpn.example.com:443 (203.0.113.5) via 198.51.100.9/TCPv4 on tun0/10.8.0.2/''"
    by (simp add: str_def Connected_ctor_def)
qed

text \<open>
  C5. An event of each of the eleven classes derived from \<^verbatim>\<open>ReasonBase\<close>, constructed
  with the reason \<open>r\<close>, renders as \<open>r\<close>, unchanged; constructed with "bad password" it
  renders as "bad password".
\<close>

theorem Reason_render_verbatim:
  "render (AuthFailed r) = r
   \<and> render (CertVerifyFail r) = r
   \<and> render (ClientHalt r) = r
   \<and> render (ClientRestart r) = r
   \<and> render (DynamicChallenge r) = r
   \<and> render (ProxyError r) = r
   \<and> render (ProxyNeedCreds r) = r
   \<and> render (TunSetupFailed r) = r
   \<and> render (TunIfaceCreate r) = r
   \<and> render (EpkiError r) = r
   \<and> render (EpkiInvalidAlias r) = r
   \<and> map (\<lambda>make. render (make ''bad password''))
       [AuthFailed, CertVerifyFail, ClientHalt, ClientRestart, DynamicChallenge, ProxyError,
        ProxyNeedCreds, TunSetupFailed, TunIfaceCreate, EpkiError, EpkiInvalidAlias]
     = replicate 11 ''bad password''"
  by (simp add: Reason_defs numeral_eq_Suc)

text \<open>
  C6. An event of each of the thirteen classes that add nothing to \<^verbatim>\<open>Base\<close> renders
  as the empty string.
\<close>

theorem Empty_render:
  "render Resolve = []
   \<and> render Wait = []
   \<and> render WaitProxy = []
   \<and> render Connecting = []
   \<and> render Reconnecting = []
   \<and> render GetConfig = []
   \<and> render AssignIP = []
   \<and> render AddRoutes = []
   \<and> render Pause = []
   \<and> render Resume = []
   \<and> render Disconnected = []
   \<and> render ConnectionTimeout = []
   \<and> render InactiveTimeout = []"
  by (simp add: Empty_defs)

text \<open>
  C10. A Connected event never renders as the empty string: the separators are written
  whatever the members hold, and with all nine members empty the result is
  "@: () via / on //".
\<close>

theorem Connected_render_nonempty:
  "render (Connected_obj c) \<noteq> []
   \<and> render (Connected_obj Connected_ctor) = ''@: () via / on //''
   \<and> length (render (Connected_obj c)) \<ge> length ''@: () via / on //''"
  by (simp add: str_def Connected_ctor_def)

text \<open>
  C8. The events for \<open>CONNECTION_TIMEOUT\<close> and \<open>INACTIVE_TIMEOUT\<close> carry no payload and
  render as the empty string, and \<^verbatim>\<open>is_error\<close> is true of both.
\<close>

theorem timeouts_render_empty_and_are_errors:
  "id_of ConnectionTimeout = CONNECTION_TIMEOUT
   \<and> render ConnectionTimeout = []
   \<and> is_error ConnectionTimeout
   \<and> id_of InactiveTimeout = INACTIVE_TIMEOUT
   \<and> render InactiveTimeout = []
   \<and> is_error InactiveTimeout
   \<and> AUTH_FAILED \<le> CONNECTION_TIMEOUT
   \<and> AUTH_FAILED \<le> INACTIVE_TIMEOUT"
  by (simp add: Empty_defs is_error_def Type_values)

subsection \<open>Event names\<close>

text \<open>
  C3. For each of the 25 declared kinds \<^verbatim>\<open>event_name\<close> returns the kind's own string,
  and for every ordinal from \<open>N_TYPES = 25\<close> upwards it returns "UNKNOWN_EVENT_TYPE".
\<close>

theorem event_name_table:
  "event_name DISCONNECTED = Inr ''DISCONNECTED''
   \<and> event_name CONNECTED = Inr ''CONNECTED''
   \<and> event_name RECONNECTING = Inr ''RECONNECTING''
   \<and> event_name RESOLVE = Inr ''RESOLVE''
   \<and> event_name WAIT = Inr ''WAIT''
   \<and> event_name WAIT_PROXY = Inr ''WAIT_PROXY''
   \<and> event_name CONNECTING = Inr ''CONNECTING''
   \<and> event_name GET_CONFIG = Inr ''GET_CONFIG''
   \<and> event_name ASSIGN_IP = Inr ''ASSIGN_IP''
   \<and> event_name ADD_ROUTES = Inr ''ADD_ROUTES''
   \<and> event_name PAUSE = Inr ''PAUSE''
   \<and> event_name RESUME = Inr ''RESUME''
   \<and> event_name AUTH_FAILED = Inr ''AUTH_FAILED''
   \<and> event_name CERT_VERIFY_FAIL = Inr ''CERT_VERIFY_FAIL''
   \<and> event_name CLIENT_HALT = Inr ''CLIENT_HALT''
   \<and> event_name CLIENT_RESTART = Inr ''CLIENT_RESTART''
   \<and> event_name CONNECTION_TIMEOUT = Inr ''CONNECTION_TIMEOUT''
   \<and> event_name INACTIVE_TIMEOUT = Inr ''INACTIVE_TIMEOUT''
   \<and> event_name DYNAMIC_CHALLENGE = Inr ''DYNAMIC_CHALLENGE''
   \<and> event_name PROXY_NEED_CREDS = Inr ''PROXY_NEED_CREDS''
   \<and> event_name PROXY_ERROR = Inr ''PROXY_ERROR''
   \<and> event_name TUN_SETUP_FAILED = Inr ''TUN_SETUP_FAILED''
   \<and> event_name TUN_IFACE_CREATE = Inr ''TUN_IFACE_CREATE''
   \<and> event_name EPKI_ERROR = Inr ''EPKI_ERROR''
   \<and> event_name EPKI_INVALID_ALIAS = Inr ''EPKI_INVALID_ALIAS''
   \<and> N_TYPES = 25
   \<and> (N_TYPES \<le> t \<longrightarrow> event_name t = Inr ''UNKNOWN_EVENT_TYPE'')"
  by (simp add: event_name_def subscript_def Type_values names_def)

theorem event_name_table_witness:
  "N_TYPES \<le> 25 \<and> event_name 25 = Inr ''UNKNOWN_EVENT_TYPE''
   \<and> N_TYPES \<le> 4096 \<and> event_name 4096 = Inr ''UNKNOWN_EVENT_TYPE''"
proof -
  have first: "N_TYPES \<le> 25" and far: "N_TYPES \<le> 4096"
    by (simp_all add: Type_values)
  from first have "event_name 25 = Inr ''UNKNOWN_EVENT_TYPE''"
    using event_name_table [of 25] by blast
  moreover from far have "event_name 4096 = Inr ''UNKNOWN_EVENT_TYPE''"
    using event_name_table [of 4096] by blast
  ultimately show ?thesis using first far by simp
qed

text \<open>
  C4, as stated: \<^verbatim>\<open>event_name\<close> returns "UNKNOWN_EVENT_TYPE" for every ordinal that is
  not the ordinal of a declared kind, also for those below the range, and never reads the
  table out of bounds. This fails below the range: \<open>- 1\<close> is less than \<open>N_TYPES\<close>, so the
  table is read, at index \<open>- 1\<close>.
\<close>

theorem event_name_below_range_counterexample:
  "- 1 < DISCONNECTED
   \<and> event_name (- 1) = Inl OutOfBounds
   \<and> event_name (- 1) \<noteq> Inr ''UNKNOWN_EVENT_TYPE''"
  by (simp add: event_name_def subscript_def Type_values)

text \<open>
  C4, amended. On the ordinals from 0 upwards \<^verbatim>\<open>event_name\<close> always returns a string:
  the table is read exactly when the ordinal is less than \<open>N_TYPES\<close>, then within its
  bounds, and every ordinal from \<open>N_TYPES\<close> upwards gives "UNKNOWN_EVENT_TYPE".
\<close>

theorem event_name_total_from_zero:
  assumes "0 \<le> t"
  shows "(\<exists>s. event_name t = Inr s)
         \<and> (t < N_TYPES \<longrightarrow> nat t < length names \<and> event_name t = Inr (names ! nat t))
         \<and> (\<not> t < N_TYPES \<longrightarrow> event_name t = Inr ''UNKNOWN_EVENT_TYPE'')"
proof (cases "t < N_TYPES")
  case True
  with assms have "event_name t = Inr (names ! nat t)"
    by (simp add: event_name_def subscript_names_in_range)
  moreover from True assms have "nat t < length names"
    by (simp add: length_names Type_values)
  ultimately show ?thesis using True by simp
next
  case False
  then show ?thesis by (simp add: event_name_def)
qed

theorem event_name_total_from_zero_witness:
  "(0::int) \<le> 3 \<and> 3 < N_TYPES \<and> event_name 3 = Inr ''RESOLVE''
   \<and> (0::int) \<le> 25 \<and> \<not> 25 < N_TYPES \<and> event_name 25 = Inr ''UNKNOWN_EVENT_TYPE''"
proof -
  have low: "(0::int) \<le> 3 \<and> 3 < N_TYPES" and high: "(0::int) \<le> 25 \<and> \<not> 25 < N_TYPES"
    by (simp_all add: Type_values)
  from low have "event_name 3 = Inr (names ! nat 3)"
    using event_name_total_from_zero [of 3] by blast
  moreover have "names ! nat 3 = ''RESOLVE''"
    by (simp add: names_def)
  moreover from high have "event_name 25 = Inr ''UNKNOWN_EVENT_TYPE''"
    using event_name_total_from_zero [of 25] by blast
  ultimately show ?thesis using low high by simp
qed

subsection \<open>Narrowing to \<^verbatim>\<open>Connected\<close>\<close>

text \<open>
  C7. \<^verbatim>\<open>connected_cast\<close> returns a pointer (to the object) if and only if the kind of
  the event is \<open>CONNECTED\<close>, and the null pointer otherwise: it returns the Connected
  event itself, whatever its members hold, and null for an event of each of the other
  twenty-four classes.
\<close>

theorem connected_cast_present_iff:
  "(connected_cast e \<noteq> None) = (id_of e = CONNECTED)
   \<and> (connected_cast e = Some e) = (id_of e = CONNECTED)
   \<and> connected_cast (Connected_obj (Connected_ctor
        \<lparr>user := u, server_host := h, server_port := p, server_proto := pr,
         server_ip := sip, vpn_ip4 := v4, vpn_ip6 := v6, client_ip := cip, tun_name := tn\<rparr>))
     = Some (Connected_obj (Connected_ctor
        \<lparr>user := u, server_host := h, server_port := p, server_proto := pr,
         server_ip := sip, vpn_ip4 := v4, vpn_ip6 := v6, client_ip := cip, tun_name := tn\<rparr>))
   \<and> map connected_cast
       [Resolve, Wait, WaitProxy, Connecting, Reconnecting, GetConfig, AssignIP, AddRoutes,
        Pause, Resume, Disconnected, ConnectionTimeout, InactiveTimeout]
     = replicate 13 None
   \<and> map connected_cast
       [AuthFailed r, CertVerifyFail r, ClientHalt r, ClientRestart r, DynamicChallenge r,
        ProxyError r, ProxyNeedCreds r, TunSetupFailed r, TunIfaceCreate r, EpkiError r,
        EpkiInvalidAlias r]
     = replicate 11 None"
  by (simp add: connected_cast_def Connected_ctor_def Empty_defs Reason_defs Type_values
      numeral_eq_Suc)

subsection \<open>The kind of an event\<close>

text \<open>
  C9. An event carries the kind its constructor stored, and no member function changes
  it: after a call of \<^verbatim>\<open>id\<close>, \<^verbatim>\<open>name\<close>, \<^verbatim>\<open>is_error\<close>, \<^verbatim>\<open>render\<close> or
  \<^verbatim>\<open>connected_cast\<close> the object, and so its kind, is what it was. \<^verbatim>\<open>name\<close> is
  \<^verbatim>\<open>event_name\<close> of the stored kind and \<^verbatim>\<open>is_error\<close> is the comparison of the stored
  kind with \<open>ERROR_START\<close>.
\<close>

theorem kind_fixed_at_construction:
  "id_of (Base_obj (Base_ctor k)) = k
   \<and> id_of (ReasonBase_obj (ReasonBase_ctor k r)) = k
   \<and> id_of (Connected_obj Connected_ctor) = CONNECTED
   \<and> snd (invoke m e) = e
   \<and> id_of (snd (invoke m e)) = id_of e
   \<and> fst (invoke M_id e) = R_Type (id_of e)
   \<and> fst (invoke M_name e) = R_name (event_name (id_of e))
   \<and> fst (invoke M_is_error e) = R_bool (id_of e \<ge> ERROR_START)
   \<and> name e = event_name (id_of e)
   \<and> is_error e = (id_of e \<ge> ERROR_START)"
  by (cases m) (simp_all add: Base_ctor_def ReasonBase_ctor_def Connected_ctor_def name_def
      is_error_def)

end
